theory Spec2Isabelle
  imports Main "HOL-Library.Char_ord" "HOL-Library.List_Lexorder"
begin

section \<open>Data exchanged with the editor and the language server\<close>

text \<open>
  The module \<^verbatim>\<open>src/refactorAction.ts\<close> is glue between the editor API and the language
  server. Its handlers are modelled as functions of an explicit environment (the stubbed
  editor, server, file system and user) that return the list of external calls they make,
  in order, together with how the handler completes.

  JavaScript strings are modelled as \<^typ>\<open>string\<close>; a property that may be absent
  (\<^verbatim>\<open>undefined\<close>) is an \<^typ>\<open>'a option\<close>.
\<close>

text \<open>A \<^verbatim>\<open>vscode.Uri\<close>: the two views the module reads.\<close>

record Uri =
  fsPath :: string
  toString :: string

record Position =
  pos_line :: nat
  pos_character :: nat

record TextDocument =
  doc_uri :: Uri

text \<open>Values passed to \<^verbatim>\<open>commands.executeCommand\<close> (typed \<^verbatim>\<open>any\<close> in the source).\<close>

datatype arg = ArgString string | ArgUri Uri | ArgPosition Position | ArgArray "arg list"

datatype TextEdit = TextEdit nat nat nat nat string

text \<open>
  An entry of \<^verbatim>\<open>WorkspaceEdit.documentChanges\<close>. The source tells the four shapes apart
  by the property \<^verbatim>\<open>kind\<close>: \<^verbatim>\<open>'create'\<close>, \<^verbatim>\<open>'rename'\<close>, \<^verbatim>\<open>'delete'\<close>, or absent for
  a text document edit.
\<close>

datatype DocumentChange =
    CreateFile string
  | RenameFile string string
  | DeleteFile string
  | TextDocumentEdit string "TextEdit list"

text \<open>
  \<^verbatim>\<open>changes\<close> is a JavaScript object from URI to text edits; it is kept as the list of
  its entries in the order \<^verbatim>\<open>Object.keys\<close> enumerates them.
\<close>

record WorkspaceEdit =
  changes :: "(string \<times> TextEdit list) list option"
  documentChanges :: "DocumentChange list option"

text \<open>The editor's own edit, as \<^verbatim>\<open>protocol2CodeConverter.asWorkspaceEdit\<close> returns it.\<close>

datatype code_WorkspaceEdit = CodeEdit WorkspaceEdit

record Command =
  cmd_title :: string
  cmd_command :: string
  cmd_arguments :: "arg list option"

record RefactorWorkspaceEdit =
  edit :: "WorkspaceEdit option"
  command :: "Command option"
  errorMessage :: "string option"

record PackageNode =
  pn_displayName :: string
  pn_uri :: "string option"
  pn_path :: "string option"
  pn_isParentOfSelectedFile :: bool

record MoveDestinationsResponse =
  mdr_errorMessage :: "string option"
  mdr_destinations :: "PackageNode list option"

record SymbolInformation =
  sym_name :: string
  sym_containerName :: "string option"
  sym_kind :: nat
  sym_location :: string

record CodeActionParams =
  cap_textDocument_uri :: string

datatype destination = PackageDestination PackageNode | SymbolDestination SymbolInformation

record GetMoveDestinationsParams =
  gmd_moveKind :: string
  gmd_sourceUris :: "string list"

record MoveParams =
  mv_moveKind :: string
  mv_sourceUris :: "string list"
  mv_params :: "CodeActionParams option"
  mv_destination :: destination
  mv_updateReferences :: "bool option"

record SearchSymbolParams =
  ss_query :: string
  ss_projectName :: "string option"
  ss_sourceOnly :: bool

text \<open>
  \<^verbatim>\<open>commandInfo\<close> is typed \<^verbatim>\<open>any\<close>; these are the properties \<^verbatim>\<open>moveStaticMember\<close> reads.
  The source reads both \<^verbatim>\<open>memberType\<close> and \<^verbatim>\<open>memeberType\<close>, so both are fields here.
\<close>

record CommandInfo =
  ci_displayName :: "string option"
  ci_enclosingTypeName :: "string option"
  ci_memberType :: "int option"
  ci_memeberType :: "int option"
  ci_projectName :: "string option"

record RenamePosition =
  rp_uri :: string
  rp_offset :: int

text \<open>Items handed to \<^verbatim>\<open>window.showQuickPick\<close>.\<close>

record PackageItem =
  pi_label :: string
  pi_description :: "string option"
  pi_packageNode :: PackageNode

record SymbolItem =
  si_label :: string
  si_description :: "string option"
  si_symbolNode :: "SymbolInformation option"
  si_alwaysShow :: "bool option"

section \<open>External calls and completions\<close>

text \<open>
  A call either returns a value or throws (for a promise: fulfils or rejects).
\<close>

datatype 'a completion = Normal 'a | Abrupt

text \<open>
  The external calls a handler makes. \<^verbatim>\<open>moveStaticMember\<close> hands the picker a promise
  of the items, hence the completion in \<open>ShowQuickPickSymbols\<close>.
\<close>

datatype event =
    ShowErrorMessage string
  | ShowWarningMessage string
  | SendGetMoveDestinations GetMoveDestinationsParams
  | SendMoveRequest MoveParams
  | SendSearchSymbols SearchSymbolParams
  | ShowQuickPickPackages "PackageItem list" string
  | ShowQuickPickSymbols "SymbolItem list completion" string
  | OpenTextDocument Uri
  | Save TextDocument
  | ApplyEdit code_WorkspaceEdit
  | ExecuteCommand string "arg list"

text \<open>
  The environment: what the editor, the server, the file system, Node's \<^verbatim>\<open>path\<close> module
  and the user answer. A pick is the index of the chosen item, \<open>None\<close> when the picker is
  dismissed.
\<close>

record env =
  Uri_parse :: "string \<Rightarrow> Uri completion"
  openTextDocument :: "Uri \<Rightarrow> TextDocument option completion"
  positionAt :: "TextDocument \<Rightarrow> int \<Rightarrow> Position completion"
  doc_save :: "TextDocument \<Rightarrow> bool completion"
  executeCommand :: "string \<Rightarrow> arg list \<Rightarrow> unit completion"
  asWorkspaceEdit :: "WorkspaceEdit \<Rightarrow> code_WorkspaceEdit option"
  applyEdit :: "code_WorkspaceEdit \<Rightarrow> bool completion"
  getMoveDestinations :: "GetMoveDestinationsParams \<Rightarrow> MoveDestinationsResponse option completion"
  moveRequest :: "MoveParams \<Rightarrow> RefactorWorkspaceEdit option completion"
  searchSymbols :: "SearchSymbolParams \<Rightarrow> SymbolInformation list option completion"
  pickPackage :: "PackageItem list \<Rightarrow> string \<Rightarrow> nat option completion"
  pickSymbol :: "SymbolItem list \<Rightarrow> string \<Rightarrow> nat option completion"
  existsSync :: "string \<Rightarrow> bool"
  path_join :: "string \<Rightarrow> string \<Rightarrow> string"
  path_dirname :: "string \<Rightarrow> string"
  path_relative :: "string \<Rightarrow> string \<Rightarrow> string"
  asRelativePath :: "Uri \<Rightarrow> bool \<Rightarrow> string"

text \<open>A handler run: the calls made so far and the completion.\<close>

type_synonym 'a io = "event list \<times> 'a completion"

definition return_io :: "'a \<Rightarrow> 'a io" where
  "return_io v = ([], Normal v)"

text \<open>Sequencing: a throw in the first part skips the rest.\<close>

definition bind_io :: "'a io \<Rightarrow> ('a \<Rightarrow> 'b io) \<Rightarrow> 'b io" where
  "bind_io m f =
     (case m of
        (t, Abrupt) \<Rightarrow> (t, Abrupt)
      | (t, Normal v) \<Rightarrow> (case f v of (t', r) \<Rightarrow> (t @ t', r)))"

text \<open>An external call that is logged and completes as the environment says.\<close>

definition call :: "event \<Rightarrow> 'a completion \<Rightarrow> 'a io" where
  "call e c = ([e], c)"

text \<open>A call that is not logged (\<^verbatim>\<open>Uri.parse\<close>, \<^verbatim>\<open>positionAt\<close>) but may throw.\<close>

definition lift :: "'a completion \<Rightarrow> 'a io" where
  "lift c = ([], c)"

text \<open>\<^verbatim>\<open>try { ... } catch (error) { /* do nothing */ }\<close>\<close>

definition try_catch :: "unit io \<Rightarrow> unit io" where
  "try_catch m = (fst m, Normal ())"

text \<open>JavaScript truthiness of an optional string: absent and \<^verbatim>\<open>''\<close> are falsy.\<close>

definition truthy :: "string option \<Rightarrow> bool" where
  "truthy s = (case s of None \<Rightarrow> False | Some v \<Rightarrow> v \<noteq> [])"

text \<open>Interpolation \<^verbatim>\<open>`${s}`\<close> of an optional string.\<close>

definition template :: "string option \<Rightarrow> string" where
  "template s = (case s of None \<Rightarrow> ''undefined'' | Some v \<Rightarrow> v)"

text \<open>The picker returns one of the items it was given, or \<^verbatim>\<open>undefined\<close>.\<close>

definition picked_item :: "'a list \<Rightarrow> nat option \<Rightarrow> 'a option" where
  "picked_item items choice =
     (case choice of
        None \<Rightarrow> None
      | Some i \<Rightarrow> if i < length items then Some (items ! i) else None)"

section \<open>The edit applier\<close>

text \<open>
  \<^verbatim>\<open>applyRefactorEdit\<close>. The error message is shown when it is truthy; \<open>template\<close> then
  is the string itself.
\<close>

definition applyRefactorEdit :: "env \<Rightarrow> RefactorWorkspaceEdit option \<Rightarrow> unit io" where
  "applyRefactorEdit env refactorEdit =
     (case refactorEdit of
        None \<Rightarrow> return_io ()
      | Some r \<Rightarrow>
          if truthy (errorMessage r)
          then call (ShowErrorMessage (template (errorMessage r))) (Normal ())
          else bind_io
            (case edit r of
               None \<Rightarrow> return_io ()
             | Some e \<Rightarrow>
                 (case asWorkspaceEdit env e of
                    None \<Rightarrow> return_io ()
                  | Some ce \<Rightarrow>
                      bind_io (call (ApplyEdit ce) (applyEdit env ce)) (\<lambda>_. return_io ())))
            (\<lambda>_. case command r of
                   None \<Rightarrow> return_io ()
                 | Some c \<Rightarrow>
                     (case cmd_arguments c of
                        Some as \<Rightarrow>
                          call (ExecuteCommand (cmd_command c) as)
                            (executeCommand env (cmd_command c) as)
                      | None \<Rightarrow>
                          call (ExecuteCommand (cmd_command c) [])
                            (executeCommand env (cmd_command c) []))))"

section \<open>The rename trigger\<close>

text \<open>
  The handler registered for \<^verbatim>\<open>RENAME_COMMAND\<close>. Its whole body is inside \<^verbatim>\<open>try\<close>; reading
  \<^verbatim>\<open>position.uri\<close> of a missing argument throws there as well.
\<close>

definition renameCommand :: "env \<Rightarrow> RenamePosition option \<Rightarrow> unit io" where
  "renameCommand env position =
     try_catch
       (case position of
          None \<Rightarrow> lift Abrupt
        | Some p \<Rightarrow>
            bind_io (lift (Uri_parse env (rp_uri p))) (\<lambda>uri.
            bind_io (call (OpenTextDocument uri) (openTextDocument env uri)) (\<lambda>document.
              case document of
                None \<Rightarrow> return_io ()
              | Some d \<Rightarrow>
                  bind_io (lift (positionAt env d (rp_offset p))) (\<lambda>renamePosition.
                    call (ExecuteCommand ''editor.action.rename''
                            [ArgArray [ArgUri (doc_uri d), ArgPosition renamePosition]])
                      (executeCommand env ''editor.action.rename''
                            [ArgArray [ArgUri (doc_uri d), ArgPosition renamePosition]])))))"

section \<open>The move-file flow\<close>

text \<open>
  \<^verbatim>\<open>uri.fsPath.replace(/^.*[\\\/]/, '')\<close>: the greedy \<^verbatim>\<open>.*\<close> stops at the first line
  terminator, so the match ends at the last separator of the first line; with no separator
  there the string is unchanged. (Of JavaScript's line terminators only LF and CR exist in
  \<^typ>\<open>char\<close>.)
\<close>

definition is_line_terminator :: "char \<Rightarrow> bool" where
  "is_line_terminator c = (c = CHR 0x0A \<or> c = CHR 0x0D)"

definition is_separator :: "char \<Rightarrow> bool" where
  "is_separator c = (c = CHR 0x5C \<or> c = CHR ''/'')"

definition getFileNameFromUri :: "Uri \<Rightarrow> string" where
  "getFileNameFromUri uri =
     (let p = fsPath uri;
          first_line = takeWhile (\<lambda>c. \<not> is_line_terminator c) p;
          matched = length (dropWhile (\<lambda>c. \<not> is_separator c) (rev first_line))
      in drop matched p)"

text \<open>The loop of \<^verbatim>\<open>hasCommonParent\<close> over \<^verbatim>\<open>uris[1..]\<close>.\<close>

fun hasCommonParent_loop :: "env \<Rightarrow> string \<Rightarrow> Uri list \<Rightarrow> bool" where
  "hasCommonParent_loop env firstParent [] = True"
| "hasCommonParent_loop env firstParent (u # us) =
     (if path_relative env firstParent (path_dirname env (fsPath u)) \<noteq> ''.''
      then False
      else hasCommonParent_loop env firstParent us)"

fun hasCommonParent :: "env \<Rightarrow> Uri list option \<Rightarrow> bool" where
  "hasCommonParent env None = True"
| "hasCommonParent env (Some []) = True"
| "hasCommonParent env (Some [u]) = True"
| "hasCommonParent env (Some (u # v # us)) =
     hasCommonParent_loop env (path_dirname env (fsPath u)) (v # us)"

text \<open>
  \<^verbatim>\<open>Set<string>\<close> iterates in insertion order: a list without repetition, \<^verbatim>\<open>add\<close>
  appending an absent element and \<^verbatim>\<open>delete\<close> removing it.
\<close>

definition set_add :: "string \<Rightarrow> string list \<Rightarrow> string list" where
  "set_add u T = (if u \<in> set T then T else T @ [u])"

definition set_delete :: "string \<Rightarrow> string list \<Rightarrow> string list" where
  "set_delete u T = removeAll u T"

text \<open>One iteration of the loop over \<^verbatim>\<open>edit.documentChanges\<close> in \<^verbatim>\<open>saveEdit\<close>.\<close>

fun touch :: "string list \<Rightarrow> DocumentChange \<Rightarrow> string list" where
  "touch T (RenameFile oldUri newUri) =
     (if oldUri \<in> set T then set_add newUri (set_delete oldUri T) else T)"
| "touch T (DeleteFile u) = (if u \<in> set T then set_delete u T else T)"
| "touch T (TextDocumentEdit u es) = set_add u T"
| "touch T (CreateFile u) = T"

text \<open>The first loop of \<^verbatim>\<open>saveEdit\<close>: the keys of \<^verbatim>\<open>edit.changes\<close>.\<close>

definition changeKeys :: "WorkspaceEdit \<Rightarrow> string list" where
  "changeKeys e =
     (case changes e of
        None \<Rightarrow> []
      | Some cs \<Rightarrow> foldl (\<lambda>T u. set_add u T) [] (map fst cs))"

text \<open>The set \<^verbatim>\<open>touchedFiles\<close> when the last loop starts.\<close>

definition touchedFiles :: "WorkspaceEdit \<Rightarrow> string list" where
  "touchedFiles e =
     (case documentChanges e of
        None \<Rightarrow> changeKeys e
      | Some dcs \<Rightarrow> foldl touch (changeKeys e) dcs)"

text \<open>The last loop of \<^verbatim>\<open>saveEdit\<close>: open each touched file and save it.\<close>

fun save_loop :: "env \<Rightarrow> string list \<Rightarrow> unit io" where
  "save_loop env [] = return_io ()"
| "save_loop env (fileUri # rest) =
     bind_io (lift (Uri_parse env fileUri)) (\<lambda>uri.
     bind_io (call (OpenTextDocument uri) (openTextDocument env uri)) (\<lambda>document.
       case document of
         None \<Rightarrow> save_loop env rest
       | Some d \<Rightarrow> bind_io (call (Save d) (doc_save env d)) (\<lambda>_. save_loop env rest)))"

definition saveEdit :: "env \<Rightarrow> WorkspaceEdit option \<Rightarrow> unit io" where
  "saveEdit env e =
     (case e of
        None \<Rightarrow> return_io ()
      | Some ed \<Rightarrow> save_loop env (touchedFiles ed))"

text \<open>\<^verbatim>\<open>x ? Uri.parse(x) : null\<close>\<close>

definition parse_if_truthy :: "env \<Rightarrow> string option \<Rightarrow> Uri option io" where
  "parse_if_truthy env s =
     (if truthy s
      then bind_io (lift (Uri_parse env (template s))) (\<lambda>u. return_io (Some u))
      else return_io None)"

text \<open>The callback of \<^verbatim>\<open>moveDestinations.destinations.map\<close>.\<close>

definition packageNodeItem :: "env \<Rightarrow> PackageNode \<Rightarrow> PackageItem io" where
  "packageNodeItem env packageNode =
     bind_io (parse_if_truthy env (pn_uri packageNode)) (\<lambda>packageUri.
       return_io
         \<lparr>pi_label = (if pn_isParentOfSelectedFile packageNode then ''* '' else [])
                      @ pn_displayName packageNode,
          pi_description = (case packageUri of
                              Some u \<Rightarrow> Some (asRelativePath env u True)
                            | None \<Rightarrow> pn_path packageNode),
          pi_packageNode = packageNode\<rparr>)"

fun map_io :: "('a \<Rightarrow> 'b io) \<Rightarrow> 'a list \<Rightarrow> 'b list io" where
  "map_io f [] = return_io []"
| "map_io f (x # xs) =
     bind_io (f x) (\<lambda>y. bind_io (map_io f xs) (\<lambda>ys. return_io (y # ys)))"

text \<open>Decimal rendering of \<^verbatim>\<open>fileUris.length\<close> in a template string.\<close>

definition digit_char :: "nat \<Rightarrow> char" where
  "digit_char d = char_of (48 + d)"

function string_of_nat :: "nat \<Rightarrow> string" where
  "string_of_nat n =
     (if n < 10 then [digit_char n] else string_of_nat (n div 10) @ [digit_char (n mod 10)])"
  by pat_completeness auto
termination
  by (relation "measure id") auto

text \<open>\<^verbatim>\<open>Array.prototype.join\<close>\<close>

fun join :: "string \<Rightarrow> string list \<Rightarrow> string" where
  "join sep [] = []"
| "join sep [x] = x"
| "join sep (x # y # ys) = x @ sep @ join sep (y # ys)"

text \<open>
  The collision loop: \<^verbatim>\<open>duplicatedFiles\<close> and \<^verbatim>\<open>moveUris\<close> are the accumulators,
  \<open>dir\<close> is \<^verbatim>\<open>packageUri.fsPath\<close>.
\<close>

fun collision_loop ::
  "env \<Rightarrow> string \<Rightarrow> Uri list \<Rightarrow> string list \<times> Uri list \<Rightarrow> string list \<times> Uri list" where
  "collision_loop env dir [] acc = acc"
| "collision_loop env dir (uri # rest) (duplicatedFiles, moveUris) =
     (let fileName = getFileNameFromUri uri
      in if existsSync env (path_join env dir fileName)
         then collision_loop env dir rest (duplicatedFiles @ [fileName], moveUris)
         else collision_loop env dir rest (duplicatedFiles, moveUris @ [uri]))"

text \<open>The parameters of the move request of line 177.\<close>

definition resourceMove :: "Uri list \<Rightarrow> PackageItem \<Rightarrow> MoveParams" where
  "resourceMove fileUris selectPackageNodeItem =
     \<lparr>mv_moveKind = ''moveResource'',
      mv_sourceUris = map toString fileUris,
      mv_params = None,
      mv_destination = PackageDestination (pi_packageNode selectPackageNodeItem),
      mv_updateReferences = Some True\<rparr>"

text \<open>Lines 177 to 188: send the move request, apply the result, save.\<close>

definition moveFile_request :: "env \<Rightarrow> Uri list \<Rightarrow> PackageItem \<Rightarrow> unit io" where
  "moveFile_request env fileUris selectPackageNodeItem =
     (let ps = resourceMove fileUris selectPackageNodeItem
      in bind_io (call (SendMoveRequest ps) (moveRequest env ps)) (\<lambda>refactorEdit.
         bind_io (applyRefactorEdit env refactorEdit) (\<lambda>_.
           case refactorEdit of
             None \<Rightarrow> return_io ()
           | Some r \<Rightarrow>
               (case edit r of
                  None \<Rightarrow> return_io ()
                | Some e \<Rightarrow> saveEdit env (Some e)))))"

text \<open>The text of the warning of line 167.\<close>

definition duplicate_warning :: "string list \<Rightarrow> string \<Rightarrow> string" where
  "duplicate_warning duplicatedFiles displayName =
     ''The files '' @ [CHR 0x27] @ join '','' duplicatedFiles @ [CHR 0x27]
     @ '' already exist in the package '' @ [CHR 0x27] @ displayName @ [CHR 0x27]
     @ ''. The move operation will ignore them.''"

text \<open>Lines 153 to 175: the collision check for the selected package.\<close>

definition moveFile_selected :: "env \<Rightarrow> Uri list \<Rightarrow> PackageItem \<Rightarrow> unit io" where
  "moveFile_selected env fileUris selectPackageNodeItem =
     bind_io (parse_if_truthy env (pn_uri (pi_packageNode selectPackageNodeItem))) (\<lambda>packageUri.
       case packageUri of
         None \<Rightarrow> moveFile_request env fileUris selectPackageNodeItem
       | Some pu \<Rightarrow>
           if fsPath pu = [] then moveFile_request env fileUris selectPackageNodeItem
           else
             (case collision_loop env (fsPath pu) fileUris ([], []) of
                (duplicatedFiles, moveUris) \<Rightarrow>
                  bind_io
                    (if duplicatedFiles \<noteq> []
                     then call (ShowWarningMessage
                                  (duplicate_warning duplicatedFiles
                                     (pn_displayName (pi_packageNode selectPackageNodeItem))))
                            (Normal ())
                     else return_io ())
                    (\<lambda>_. if moveUris = [] then return_io ()
                         else moveFile_request env moveUris selectPackageNodeItem)))"

text \<open>
  \<^verbatim>\<open>!moveDestinations || !moveDestinations.destinations || !moveDestinations.destinations.length\<close>:
  \<open>None\<close> when the guard fires, the non-empty list otherwise.
\<close>

definition available_destinations ::
  "MoveDestinationsResponse option \<Rightarrow> PackageNode list option" where
  "available_destinations moveDestinations =
     (case moveDestinations of
        None \<Rightarrow> None
      | Some md \<Rightarrow>
          (case mdr_destinations md of
             None \<Rightarrow> None
           | Some ds \<Rightarrow> if ds = [] then None else Some ds))"

definition moveFile_placeHolder :: "Uri list \<Rightarrow> string" where
  "moveFile_placeHolder fileUris =
     (case fileUris of
        [u] \<Rightarrow> ''Choose the target package for '' @ getFileNameFromUri u @ ''.''
      | _ \<Rightarrow> ''Choose the target package for '' @ string_of_nat (length fileUris)
             @ '' selected files.'')"

definition destinationsRequest :: "Uri list \<Rightarrow> GetMoveDestinationsParams" where
  "destinationsRequest fileUris =
     \<lparr>gmd_moveKind = ''moveResource'', gmd_sourceUris = map toString fileUris\<rparr>"

definition different_directories :: string where
  "different_directories =
     ''Moving files from different directories are not supported. Please make sure they are from the same directory.''"

definition moveFile :: "env \<Rightarrow> Uri list \<Rightarrow> unit io" where
  "moveFile env fileUris =
     (if \<not> hasCommonParent env (Some fileUris)
      then call (ShowErrorMessage different_directories) (Normal ())
      else
        (let req = destinationsRequest fileUris
         in bind_io (call (SendGetMoveDestinations req) (getMoveDestinations env req))
              (\<lambda>moveDestinations.
                 case available_destinations moveDestinations of
                   None \<Rightarrow>
                     call (ShowErrorMessage
                       ''Cannot find available Java packages to move the selected files to.'')
                       (Normal ())
                 | Some destinations \<Rightarrow>
                     bind_io (map_io (packageNodeItem env) destinations) (\<lambda>packageNodeItems.
                     bind_io (call (ShowQuickPickPackages packageNodeItems
                                      (moveFile_placeHolder fileUris))
                                (pickPackage env packageNodeItems (moveFile_placeHolder fileUris)))
                       (\<lambda>choice.
                          case picked_item packageNodeItems choice of
                            None \<Rightarrow> return_io ()
                          | Some selectPackageNodeItem \<Rightarrow>
                              moveFile_selected env fileUris selectPackageNodeItem)))))"

section \<open>The static-member move\<close>

text \<open>The set \<^verbatim>\<open>exclude\<close> (lines 294 to 302).\<close>

definition exclude :: "CommandInfo \<Rightarrow> string list" where
  "exclude commandInfo =
     (if truthy (ci_enclosingTypeName commandInfo)
      then template (ci_enclosingTypeName commandInfo)
           # (if ci_memberType commandInfo = Some 55 \<or> ci_memeberType commandInfo = Some 71
                 \<or> ci_memberType commandInfo = Some 81
              then [template (ci_enclosingTypeName commandInfo) @ ''.''
                    @ template (ci_displayName commandInfo)]
              else [])
      else [])"

definition typeName :: "SymbolInformation \<Rightarrow> string" where
  "typeName type =
     (if truthy (sym_containerName type)
      then template (sym_containerName type) @ ''.'' @ sym_name type
      else sym_name type)"

text \<open>The comparator handed to \<^verbatim>\<open>sort\<close>.\<close>

definition compareByName :: "SymbolInformation \<Rightarrow> SymbolInformation \<Rightarrow> int" where
  "compareByName a b =
     (if sym_name a < sym_name b then - 1
      else if sym_name a > sym_name b then 1
      else 0)"

text \<open>
  \<^verbatim>\<open>Array.prototype.sort\<close> with a comparator, as a stable insertion sort: an element goes
  before the first one it does not compare greater than.
\<close>

fun insert_by :: "('a \<Rightarrow> 'a \<Rightarrow> int) \<Rightarrow> 'a \<Rightarrow> 'a list \<Rightarrow> 'a list" where
  "insert_by cmp x [] = [x]"
| "insert_by cmp x (y # ys) = (if cmp x y \<le> 0 then x # y # ys else y # insert_by cmp x ys)"

definition sort_by :: "('a \<Rightarrow> 'a \<Rightarrow> int) \<Rightarrow> 'a list \<Rightarrow> 'a list" where
  "sort_by cmp xs = foldr (insert_by cmp) xs []"

definition noResult :: SymbolItem where
  "noResult = \<lparr>si_label = ''No result found'', si_description = Some [],
               si_symbolNode = None, si_alwaysShow = Some True\<rparr>"

definition symbolItem :: "SymbolInformation \<Rightarrow> SymbolItem" where
  "symbolItem symbol = \<lparr>si_label = sym_name symbol, si_description = sym_containerName symbol,
                        si_symbolNode = Some symbol, si_alwaysShow = None\<rparr>"

text \<open>The \<^verbatim>\<open>then\<close> callback that turns the server's symbols into picker items.\<close>

definition candidates :: "CommandInfo \<Rightarrow> SymbolInformation list option \<Rightarrow> SymbolItem list" where
  "candidates commandInfo types =
     (case types of
        None \<Rightarrow> [noResult]
      | Some ts \<Rightarrow>
          if ts = [] then [noResult]
          else map symbolItem
                 (sort_by compareByName
                    (filter (\<lambda>type. typeName type \<notin> set (exclude commandInfo)) ts)))"

definition symbolQuery :: "CommandInfo \<Rightarrow> SearchSymbolParams" where
  "symbolQuery commandInfo =
     \<lparr>ss_query = ''*'', ss_projectName = ci_projectName commandInfo, ss_sourceOnly = True\<rparr>"

definition moveStaticMember_placeHolder :: "CommandInfo \<Rightarrow> string" where
  "moveStaticMember_placeHolder commandInfo =
     (let memberName = (if truthy (ci_displayName commandInfo)
                        then template (ci_displayName commandInfo) else [])
      in ''Select the new class for the static member '' @ memberName @ ''.'')"

definition staticMemberMove :: "CodeActionParams \<Rightarrow> SymbolInformation \<Rightarrow> MoveParams" where
  "staticMemberMove params symbolNode =
     \<lparr>mv_moveKind = ''moveStaticMember'',
      mv_sourceUris = [cap_textDocument_uri params],
      mv_params = Some params,
      mv_destination = SymbolDestination symbolNode,
      mv_updateReferences = None\<rparr>"

text \<open>
  \<^verbatim>\<open>commandInfo.enclosingTypeName\<close> (line 295) is read without a guard, so a missing
  \<^verbatim>\<open>commandInfo\<close> throws. A rejected search request rejects the promise handed to the
  picker and with it the awaited pick.
\<close>

definition moveStaticMember :: "env \<Rightarrow> CodeActionParams \<Rightarrow> CommandInfo option \<Rightarrow> unit io" where
  "moveStaticMember env params commandInfo =
     (case commandInfo of
        None \<Rightarrow> lift Abrupt
      | Some ci \<Rightarrow>
          (case searchSymbols env (symbolQuery ci) of
             Abrupt \<Rightarrow>
               ([SendSearchSymbols (symbolQuery ci),
                 ShowQuickPickSymbols Abrupt (moveStaticMember_placeHolder ci)], Abrupt)
           | Normal types \<Rightarrow>
               (let items = candidates ci types
                in bind_io (call (SendSearchSymbols (symbolQuery ci)) (Normal ())) (\<lambda>_.
                   bind_io (call (ShowQuickPickSymbols (Normal items)
                                    (moveStaticMember_placeHolder ci))
                              (pickSymbol env items (moveStaticMember_placeHolder ci)))
                     (\<lambda>choice.
                        case picked_item items choice of
                          None \<Rightarrow> return_io ()
                        | Some picked \<Rightarrow>
                            (case si_symbolNode picked of
                               None \<Rightarrow> return_io ()
                             | Some symbolNode \<Rightarrow>
                                 bind_io (call (SendMoveRequest (staticMemberMove params symbolNode))
                                            (moveRequest env (staticMemberMove params symbolNode)))
                                   (applyRefactorEdit env)))))))"

section \<open>Vocabulary of the statements\<close>

text \<open>The calls that report something to the user.\<close>

definition is_report :: "event \<Rightarrow> bool" where
  "is_report e =
     (case e of ShowErrorMessage m \<Rightarrow> True | ShowWarningMessage m \<Rightarrow> True | _ \<Rightarrow> False)"

text \<open>
  A selected file collides when a file of its name exists in the directory of the chosen
  package (the test of line 159).
\<close>

definition collides :: "env \<Rightarrow> Uri \<Rightarrow> Uri \<Rightarrow> bool" where
  "collides env packageUri uri =
     existsSync env (path_join env (fsPath packageUri) (getFileNameFromUri uri))"

text \<open>
  The changes after which a URI can be in \<^verbatim>\<open>touchedFiles\<close> without having been there
  before (a rename to it, a text edit of it), and those after which it can be gone (a
  rename from it, its deletion).
\<close>

fun may_add :: "string \<Rightarrow> DocumentChange \<Rightarrow> bool" where
  "may_add u (RenameFile oldUri newUri) = (u = newUri)"
| "may_add u (TextDocumentEdit v es) = (u = v)"
| "may_add u (DeleteFile v) = False"
| "may_add u (CreateFile v) = False"

fun may_remove :: "string \<Rightarrow> DocumentChange \<Rightarrow> bool" where
  "may_remove u (RenameFile oldUri newUri) = (u = oldUri)"
| "may_remove u (DeleteFile v) = (u = v)"
| "may_remove u (TextDocumentEdit v es) = False"
| "may_remove u (CreateFile v) = False"

text \<open>
  The keys of \<^verbatim>\<open>changes\<close> and the list \<^verbatim>\<open>documentChanges\<close> of an edit, empty when absent,
  and the set \<^verbatim>\<open>touchedFiles\<close> after the document changes \<open>pre\<close> have been processed.
\<close>

definition change_keys_of :: "WorkspaceEdit \<Rightarrow> string list" where
  "change_keys_of e = (case changes e of None \<Rightarrow> [] | Some cs \<Rightarrow> map fst cs)"

definition document_changes_of :: "WorkspaceEdit \<Rightarrow> DocumentChange list" where
  "document_changes_of e = (case documentChanges e of None \<Rightarrow> [] | Some dcs \<Rightarrow> dcs)"

definition touched_after :: "WorkspaceEdit \<Rightarrow> DocumentChange list \<Rightarrow> string list" where
  "touched_after e pre = foldl touch (changeKeys e) pre"

section \<open>A stubbed environment and example inputs\<close>

text \<open>
  A stubbed editor, server and file system for concrete runs: every call succeeds, the
  server answers nothing, the user picks the first item, no file exists. As in Node,
  \<^verbatim>\<open>path.relative\<close> of a directory to itself is the empty string.
\<close>

definition stub :: env where
  "stub =
     \<lparr>Uri_parse = (\<lambda>s. Normal \<lparr>fsPath = drop 7 s, toString = s\<rparr>),
      openTextDocument = (\<lambda>u. Normal (Some \<lparr>doc_uri = u\<rparr>)),
      positionAt = (\<lambda>d off. Normal \<lparr>pos_line = 0, pos_character = nat off\<rparr>),
      doc_save = (\<lambda>d. Normal True),
      executeCommand = (\<lambda>c as. Normal ()),
      asWorkspaceEdit = (\<lambda>e. Some (CodeEdit e)),
      applyEdit = (\<lambda>e. Normal True),
      getMoveDestinations = (\<lambda>r. Normal None),
      moveRequest = (\<lambda>p. Normal None),
      searchSymbols = (\<lambda>q. Normal None),
      pickPackage = (\<lambda>items ph. Normal (Some 0)),
      pickSymbol = (\<lambda>items ph. Normal (Some 0)),
      existsSync = (\<lambda>p. False),
      path_join = (\<lambda>a b. a @ ''/'' @ b),
      path_dirname = (\<lambda>p. rev (tl (dropWhile (\<lambda>c. c \<noteq> CHR ''/'') (rev p)))),
      path_relative = (\<lambda>a b. if a = b then [] else ''..''),
      asRelativePath = (\<lambda>u b. fsPath u)\<rparr>"

text \<open>What the stub's \<^verbatim>\<open>Uri.parse\<close> and \<^verbatim>\<open>openTextDocument\<close> answer for a URI string.\<close>

definition stub_uri :: "string \<Rightarrow> Uri" where
  "stub_uri s = \<lparr>fsPath = drop 7 s, toString = s\<rparr>"

definition stub_document :: "string \<Rightarrow> TextDocument" where
  "stub_document s = \<lparr>doc_uri = stub_uri s\<rparr>"

text \<open>A selected file, a destination package and its picker item.\<close>

definition file_uri :: "string \<Rightarrow> Uri" where
  "file_uri p = \<lparr>fsPath = p, toString = ''file://'' @ p\<rparr>"

definition package_q :: PackageNode where
  "package_q = \<lparr>pn_displayName = ''q'', pn_uri = Some ''file:///w/q'', pn_path = Some ''/w/q'',
                 pn_isParentOfSelectedFile = False\<rparr>"

definition picker_item_q :: PackageItem where
  "picker_item_q =
     \<lparr>pi_label = ''q'', pi_description = Some ''/w/q'', pi_packageNode = package_q\<rparr>"

definition one_destination :: "GetMoveDestinationsParams \<Rightarrow> MoveDestinationsResponse option completion"
  where
  "one_destination r = Normal (Some \<lparr>mdr_errorMessage = None, mdr_destinations = Some [package_q]\<rparr>)"

text \<open>
  A move result that carries both an error message and an edit, and a move-file
  environment whose server answers it.
\<close>

definition error_with_edit :: RefactorWorkspaceEdit where
  "error_with_edit =
     \<lparr>edit = Some \<lparr>changes = Some [(''file:///w/p/A.java'', [])], documentChanges = None\<rparr>,
      command = None,
      errorMessage = Some ''Cannot move''\<rparr>"

definition env_error_with_edit :: env where
  "env_error_with_edit =
     stub\<lparr>getMoveDestinations := one_destination,
          moveRequest := (\<lambda>p. Normal (Some error_with_edit))\<rparr>"

text \<open>A result with an edit and a follow-up command.\<close>

definition edit_and_command :: RefactorWorkspaceEdit where
  "edit_and_command =
     \<lparr>edit = Some \<lparr>changes = Some [(''file:///w/p/A.java'', [])], documentChanges = None\<rparr>,
      command = Some \<lparr>cmd_title = ''Rename'', cmd_command = ''java.action.rename'',
                      cmd_arguments = Some [ArgString ''x'']\<rparr>,
      errorMessage = None\<rparr>"

text \<open>
  A stub, Node-like as \<open>stub\<close>, whose server offers the package \<open>q\<close> and whose
  destination directory already holds \<^verbatim>\<open>B.java\<close>.
\<close>

definition env_existing_B :: env where
  "env_existing_B =
     stub\<lparr>getMoveDestinations := one_destination,
          existsSync := (\<lambda>p. p = ''/w/q/B.java'')\<rparr>"

text \<open>
  A destination package without URI, and a stub whose server offers it and in which every
  path exists.
\<close>

definition package_no_uri :: PackageNode where
  "package_no_uri = \<lparr>pn_displayName = ''q'', pn_uri = None, pn_path = Some ''/w/q'',
                      pn_isParentOfSelectedFile = False\<rparr>"

definition env_no_uri :: env where
  "env_no_uri =
     stub\<lparr>getMoveDestinations :=
            (\<lambda>r. Normal (Some \<lparr>mdr_errorMessage = None,
                                mdr_destinations = Some [package_no_uri]\<rparr>)),
          existsSync := (\<lambda>p. True)\<rparr>"

text \<open>
  Two workspace edits: a lone rename, and an edit with a key in \<^verbatim>\<open>changes\<close>, a text edit
  followed by a rename of the edited file, a rename of an unedited file, a text edit
  followed by the deletion of the edited file, and a last text edit.
\<close>

definition rename_only :: WorkspaceEdit where
  "rename_only =
     \<lparr>changes = None,
      documentChanges = Some [RenameFile ''file:///w/p/A.java'' ''file:///w/q/A.java'']\<rparr>"

definition mixed_edit :: WorkspaceEdit where
  "mixed_edit =
     \<lparr>changes = Some [(''file:///w/p/K.java'', [])],
      documentChanges = Some
        [TextDocumentEdit ''file:///w/p/A.java'' [],
         RenameFile ''file:///w/p/A.java'' ''file:///w/q/A.java'',
         RenameFile ''file:///w/p/C.java'' ''file:///w/q/C.java'',
         TextDocumentEdit ''file:///w/p/E.java'' [],
         DeleteFile ''file:///w/p/E.java'',
         TextDocumentEdit ''file:///w/p/F.java'' []]\<rparr>"

text \<open>
  Inputs of the static-member move: members of \<open>p.Outer\<close> of kind Enum (71), Type (55)
  and method (31), and a search result.
\<close>

definition symbol :: "string \<Rightarrow> string \<Rightarrow> SymbolInformation" where
  "symbol container name =
     \<lparr>sym_name = name, sym_containerName = Some container, sym_kind = 5,
      sym_location = ''file:///w/p/'' @ name @ ''.java''\<rparr>"

definition enum_member :: CommandInfo where
  "enum_member =
     \<lparr>ci_displayName = Some ''Color'', ci_enclosingTypeName = Some ''p.Outer'',
      ci_memberType = Some 71, ci_memeberType = None, ci_projectName = Some ''demo''\<rparr>"

definition type_member :: CommandInfo where
  "type_member =
     \<lparr>ci_displayName = Some ''Color'', ci_enclosingTypeName = Some ''p.Outer'',
      ci_memberType = Some 55, ci_memeberType = None, ci_projectName = Some ''demo''\<rparr>"

definition method_member :: CommandInfo where
  "method_member =
     \<lparr>ci_displayName = Some ''run'', ci_enclosingTypeName = Some ''p.Outer'',
      ci_memberType = Some 31, ci_memeberType = None, ci_projectName = Some ''demo''\<rparr>"

definition found_symbols :: "SymbolInformation list" where
  "found_symbols = [symbol ''p'' ''Target'', symbol ''p.Outer'' ''Color'', symbol ''p'' ''Outer'']"

section \<open>Facts about sequencing\<close>

lemma bind_io_pair:
  "bind_io (t, c) f =
     (case c of Abrupt \<Rightarrow> (t, Abrupt) | Normal v \<Rightarrow> (t @ fst (f v), snd (f v)))"
  by (simp add: bind_io_def split: completion.splits prod.splits)

lemmas io_simps = call_def return_io_def lift_def bind_io_pair

section \<open>The edit applier: error results and the follow-up command\<close>

text \<open>
  What \<^verbatim>\<open>applyRefactorEdit\<close> itself does with an error message: it shows the message and
  returns, whatever else the result carries.
\<close>

lemma applyRefactorEdit_error:
  "errorMessage r = Some m \<Longrightarrow> m \<noteq> [] \<Longrightarrow>
   applyRefactorEdit env (Some r) = ([ShowErrorMessage m], Normal ())"
  by (simp add: applyRefactorEdit_def call_def template_def truthy_def)

text \<open>
  C1 (fails on the code). The claim: when a refactor result contains an error message the
  message is shown and the operation stops, without applying an edit, without a follow-up
  command and, in the move-file flow, without saving documents even if the result also
  contains an edit. In \<^verbatim>\<open>moveFile\<close> the save step (lines 186 to 188) is guarded by the
  presence of the edit only: for the result \<open>error_with_edit\<close> the error is shown, no edit
  is applied, and the document of the edit is nevertheless opened and saved.
\<close>

theorem C1_moveFile_saves_after_error:
  "moveFile env_error_with_edit [file_uri ''/w/p/A.java''] =
     ([SendGetMoveDestinations (destinationsRequest [file_uri ''/w/p/A.java'']),
       ShowQuickPickPackages [picker_item_q] ''Choose the target package for A.java.'',
       SendMoveRequest (resourceMove [file_uri ''/w/p/A.java''] picker_item_q),
       ShowErrorMessage ''Cannot move'',
       OpenTextDocument (stub_uri ''file:///w/p/A.java''),
       Save (stub_document ''file:///w/p/A.java'')],
      Normal ())"
  by (simp add: moveFile_def moveFile_selected_def moveFile_request_def applyRefactorEdit_def
      saveEdit_def touchedFiles_def changeKeys_def set_add_def packageNodeItem_def
      parse_if_truthy_def available_destinations_def picked_item_def truthy_def template_def
      collision_loop.simps getFileNameFromUri_def is_separator_def is_line_terminator_def
      moveFile_placeHolder_def env_error_with_edit_def error_with_edit_def stub_def
      one_destination_def package_q_def picker_item_q_def file_uri_def stub_uri_def
      stub_document_def io_simps)

text \<open>
  C8. For a result without error message that has an edit and a follow-up command, the
  edit is handed to \<^verbatim>\<open>workspace.applyEdit\<close> first; when that call returns, the command
  is executed next, with the arguments of the result, or with none when the result has
  none. (When \<^verbatim>\<open>applyEdit\<close> rejects, the command is not executed at all.) The converter
  is assumed to return an edit, as it does for every edit that is present.
\<close>

theorem C8_edit_then_command:
  assumes "\<not> truthy (errorMessage r)" and "edit r = Some e" and "command r = Some c"
    and "asWorkspaceEdit env e = Some ce"
  shows "fst (applyRefactorEdit env (Some r)) =
           ApplyEdit ce #
           (case applyEdit env ce of
              Abrupt \<Rightarrow> []
            | Normal ok \<Rightarrow>
                [ExecuteCommand (cmd_command c)
                   (case cmd_arguments c of None \<Rightarrow> [] | Some as \<Rightarrow> as)])"
  using assms
  by (simp add: applyRefactorEdit_def io_simps split: completion.splits option.splits)

theorem C8_edit_then_command_witness:
  "fst (applyRefactorEdit stub (Some edit_and_command)) =
     [ApplyEdit (CodeEdit \<lparr>changes = Some [(''file:///w/p/A.java'', [])], documentChanges = None\<rparr>),
      ExecuteCommand ''java.action.rename'' [ArgString ''x'']]"
proof -
  let ?e = "\<lparr>changes = Some [(''file:///w/p/A.java'', [])], documentChanges = None\<rparr>"
  let ?c = "\<lparr>cmd_title = ''Rename'', cmd_command = ''java.action.rename'',
             cmd_arguments = Some [ArgString ''x'']\<rparr>"
  have h1: "\<not> truthy (errorMessage edit_and_command)"
    by (simp add: edit_and_command_def truthy_def)
  have h2: "edit edit_and_command = Some ?e"
    by (simp add: edit_and_command_def)
  have h3: "command edit_and_command = Some ?c"
    by (simp add: edit_and_command_def)
  have h4: "asWorkspaceEdit stub ?e = Some (CodeEdit ?e)"
    by (simp add: stub_def)
  have ok: "applyEdit stub (CodeEdit ?e) = Normal True"
    by (simp add: stub_def)
  from C8_edit_then_command [OF h1 h2 h3 h4] ok show ?thesis
    by simp
qed

section \<open>The rename trigger never fails\<close>

text \<open>
  C6. Whatever the argument is and whatever the editor does (\<^verbatim>\<open>Uri.parse\<close>,
  \<^verbatim>\<open>openTextDocument\<close>, \<^verbatim>\<open>positionAt\<close> or the rename command throwing or rejecting), the
  rename-trigger handler completes normally and shows no error or warning message.
\<close>

theorem C6_rename_silent:
  "snd (renameCommand env position) = Normal () \<and>
   filter is_report (fst (renameCommand env position)) = []"
  by (simp add: renameCommand_def try_catch_def io_simps is_report_def
      split: option.splits completion.splits)

text \<open>An instance in which \<^verbatim>\<open>openTextDocument\<close> rejects.\<close>

theorem C6_rename_silent_witness:
  "snd (renameCommand (stub\<lparr>openTextDocument := (\<lambda>u. Abrupt)\<rparr>)
          (Some \<lparr>rp_uri = ''file:///w/p/A.java'', rp_offset = 12\<rparr>)) = Normal () \<and>
   filter is_report
     (fst (renameCommand (stub\<lparr>openTextDocument := (\<lambda>u. Abrupt)\<rparr>)
             (Some \<lparr>rp_uri = ''file:///w/p/A.java'', rp_offset = 12\<rparr>))) = []"
  by (rule C6_rename_silent)

section \<open>The move-file flow: common parent and the picker\<close>

lemma hasCommonParent_loop_same:
  assumes rel: "\<And>a b. path_relative env a b = ''.'' \<Longrightarrow> a = b"
  shows "hasCommonParent_loop env firstParent us \<Longrightarrow> u \<in> set us \<Longrightarrow>
         path_dirname env (fsPath u) = firstParent"
proof (induction us)
  case Nil
  then show ?case by simp
next
  case (Cons v vs)
  from Cons.prems(1)
  have r: "path_relative env firstParent (path_dirname env (fsPath v)) = ''.''"
    and l: "hasCommonParent_loop env firstParent vs"
    by (simp_all split: if_splits)
  from rel [OF r] have "path_dirname env (fsPath v) = firstParent"
    by simp
  with Cons.IH [OF l] Cons.prems(2) show ?case
    by (cases "u = v") simp_all
qed

lemma hasCommonParent_same:
  assumes rel: "\<And>a b. path_relative env a b = ''.'' \<Longrightarrow> a = b"
    and common: "hasCommonParent env (Some us)" and two: "2 \<le> length us" and mem: "u \<in> set us"
  shows "path_dirname env (fsPath u) = path_dirname env (fsPath (hd us))"
proof -
  from two obtain v w ws where us: "us = v # w # ws"
    by (cases us; cases "tl us") simp_all
  with common have "hasCommonParent_loop env (path_dirname env (fsPath v)) (w # ws)"
    by simp
  from hasCommonParent_loop_same [OF rel this]
  have "\<And>x. x \<in> set (w # ws) \<Longrightarrow> path_dirname env (fsPath x) = path_dirname env (fsPath v)"
    by simp
  with mem us show ?thesis
    by (cases "u = v") simp_all
qed

lemma hasCommonParent_short: "length us \<le> 1 \<Longrightarrow> hasCommonParent env (Some us)"
  by (cases us; cases "tl us") simp_all

text \<open>
  The loop accepts a file only when \<^verbatim>\<open>path.relative\<close> answers \<^verbatim>\<open>'.'\<close>. In an environment
  where it never does (Node answers the empty string for equal directories), every list
  of two or more files is rejected, files of one directory included.
\<close>

lemma hasCommonParent_never_dot:
  assumes "\<And>a b. path_relative env a b \<noteq> ''.''" and "2 \<le> length us"
  shows "\<not> hasCommonParent env (Some us)"
proof -
  from assms(2) obtain v w ws where "us = v # w # ws"
    by (cases us; cases "tl us") simp_all
  with assms(1) show ?thesis
    by simp
qed

text \<open>
  C5. A move over two or more files of which one has a parent directory other than the
  first file's shows the different-directories error and does nothing else: no
  get-move-destinations request, hence no move request. A list of at most one file passes
  the common-parent check. The parent directory is \<^verbatim>\<open>path.dirname\<close> of the file system
  path; of \<^verbatim>\<open>path.relative\<close> the proof needs only that it does not answer \<^verbatim>\<open>'.'\<close> for two
  different directories.
\<close>

theorem C5_different_directories:
  "(2 \<le> length fileUris \<and>
    (\<exists>u\<in>set fileUris. path_dirname env (fsPath u) \<noteq> path_dirname env (fsPath (hd fileUris))) \<and>
    (\<forall>a b. path_relative env a b = ''.'' \<longrightarrow> a = b)
      \<longrightarrow> moveFile env fileUris = ([ShowErrorMessage different_directories], Normal ())) \<and>
   (length fileUris \<le> 1 \<longrightarrow> hasCommonParent env (Some fileUris))"
proof (intro conjI impI)
  assume h: "2 \<le> length fileUris \<and>
    (\<exists>u\<in>set fileUris. path_dirname env (fsPath u) \<noteq> path_dirname env (fsPath (hd fileUris))) \<and>
    (\<forall>a b. path_relative env a b = ''.'' \<longrightarrow> a = b)"
  then have two: "2 \<le> length fileUris"
    and rel: "\<And>a b. path_relative env a b = ''.'' \<Longrightarrow> a = b"
    by simp_all
  from h obtain u where u: "u \<in> set fileUris"
    and diff: "path_dirname env (fsPath u) \<noteq> path_dirname env (fsPath (hd fileUris))"
    by fast
  have "\<not> hasCommonParent env (Some fileUris)"
  proof
    assume "hasCommonParent env (Some fileUris)"
    from hasCommonParent_same [OF rel this two u] diff show False
      by simp
  qed
  then show "moveFile env fileUris = ([ShowErrorMessage different_directories], Normal ())"
    by (simp add: moveFile_def io_simps)
next
  assume "length fileUris \<le> 1"
  then show "hasCommonParent env (Some fileUris)"
    by (rule hasCommonParent_short)
qed

theorem C5_different_directories_witness:
  "moveFile stub [file_uri ''/w/p/A.java'', file_uri ''/w/r/B.java''] =
     ([ShowErrorMessage different_directories], Normal ()) \<and>
   hasCommonParent stub (Some [file_uri ''/w/p/A.java''])"
proof -
  have two: "2 \<le> length [file_uri ''/w/p/A.java'', file_uri ''/w/r/B.java'']"
    by simp
  have diff: "\<exists>u\<in>set [file_uri ''/w/p/A.java'', file_uri ''/w/r/B.java''].
        path_dirname stub (fsPath u)
        \<noteq> path_dirname stub (fsPath (hd [file_uri ''/w/p/A.java'', file_uri ''/w/r/B.java'']))"
    by (simp add: stub_def file_uri_def)
  have rel: "\<forall>a b. path_relative stub a b = ''.'' \<longrightarrow> a = b"
    by (simp add: stub_def)
  have one: "length [file_uri ''/w/p/A.java''] \<le> 1"
    by simp
  from C5_different_directories [of "[file_uri ''/w/p/A.java'', file_uri ''/w/r/B.java'']" stub]
    two diff rel
  have "moveFile stub [file_uri ''/w/p/A.java'', file_uri ''/w/r/B.java''] =
     ([ShowErrorMessage different_directories], Normal ())"
    by blast
  moreover from C5_different_directories [of "[file_uri ''/w/p/A.java'']" stub] one
  have "hasCommonParent stub (Some [file_uri ''/w/p/A.java''])"
    by blast
  ultimately show ?thesis
    by simp
qed

text \<open>
  C7. When the common-parent check passes and the destinations response holds exactly one
  candidate, the picker is presented, with exactly one item, which carries that candidate:
  no path skips the picker. (\<^verbatim>\<open>Uri.parse\<close> of the candidate's URI is assumed not to throw.)
\<close>

theorem C7_single_candidate_picker:
  assumes "hasCommonParent env (Some fileUris)"
    and "getMoveDestinations env (destinationsRequest fileUris) = Normal (Some md)"
    and "mdr_destinations md = Some [d]"
    and "truthy (pn_uri d) \<longrightarrow> Uri_parse env (template (pn_uri d)) \<noteq> Abrupt"
  shows "\<exists>item rest.
           fst (moveFile env fileUris) =
             SendGetMoveDestinations (destinationsRequest fileUris)
             # ShowQuickPickPackages [item] (moveFile_placeHolder fileUris) # rest
           \<and> pi_packageNode item = d"
proof (cases "truthy (pn_uri d)")
  case True
  with assms(4) obtain pu where "Uri_parse env (template (pn_uri d)) = Normal pu"
    by (cases "Uri_parse env (template (pn_uri d))") auto
  with True assms(1-3) show ?thesis
    by (simp add: moveFile_def available_destinations_def packageNodeItem_def parse_if_truthy_def
        io_simps split: completion.splits)
next
  case False
  with assms(1-3) show ?thesis
    by (simp add: moveFile_def available_destinations_def packageNodeItem_def parse_if_truthy_def
        io_simps split: completion.splits)
qed

theorem C7_single_candidate_picker_witness:
  "\<exists>item rest.
     fst (moveFile (stub\<lparr>getMoveDestinations := one_destination\<rparr>) [file_uri ''/w/p/A.java'']) =
       SendGetMoveDestinations (destinationsRequest [file_uri ''/w/p/A.java''])
       # ShowQuickPickPackages [item] (moveFile_placeHolder [file_uri ''/w/p/A.java'']) # rest
     \<and> pi_packageNode item = package_q"
proof -
  let ?env = "stub\<lparr>getMoveDestinations := one_destination\<rparr>"
  let ?files = "[file_uri ''/w/p/A.java'']"
  let ?md = "\<lparr>mdr_errorMessage = None, mdr_destinations = Some [package_q]\<rparr>"
  have h1: "hasCommonParent ?env (Some ?files)"
    by simp
  have h2: "getMoveDestinations ?env (destinationsRequest ?files) = Normal (Some ?md)"
    by (simp add: one_destination_def)
  have h3: "mdr_destinations ?md = Some [package_q]"
    by simp
  have h4: "truthy (pn_uri package_q) \<longrightarrow> Uri_parse ?env (template (pn_uri package_q)) \<noteq> Abrupt"
    by (simp add: stub_def)
  from C7_single_candidate_picker [OF h1 h2 h3 h4] show ?thesis .
qed

section \<open>The move-file flow: name collisions\<close>

lemma collision_loop_filter:
  "collision_loop env (fsPath pu) us (ds, ms) =
     (ds @ map getFileNameFromUri (filter (collides env pu) us),
      ms @ filter (\<lambda>u. \<not> collides env pu u) us)"
  by (induction us arbitrary: ds ms) (simp_all add: collides_def Let_def)

text \<open>\<^verbatim>\<open>join(',')\<close> in terms of the list library: each name after a comma, less the first comma.\<close>

lemma join_comma: "join '','' xs = tl (concat (map ((#) CHR '','') xs))"
  by (induction "'',''" xs rule: join.induct) simp_all

lemma moveFile_request_first:
  "\<exists>tail. fst (moveFile_request env us item) =
     SendMoveRequest
       \<lparr>mv_moveKind = ''moveResource'', mv_sourceUris = map toString us, mv_params = None,
        mv_destination = PackageDestination (pi_packageNode item),
        mv_updateReferences = Some True\<rparr> # tail"
  by (simp add: moveFile_request_def resourceMove_def Let_def io_simps split: completion.splits)

text \<open>
  The claim C3 as written speaks of every move-file invocation in which the destination
  directory holds a file of the name of a selected file. The collision check is made only
  behind the guard of line 154, for a chosen package with a URI whose file system path is
  not empty. For a package without URI no check is made: here every path exists, and the
  selected file is in the move request, with no warning.
\<close>

theorem C3_no_uri_counterexample:
  "existsSync env_no_uri (path_join env_no_uri ''/w/q'' ''A.java'') \<and>
   moveFile env_no_uri [file_uri ''/w/p/A.java''] =
     ([SendGetMoveDestinations
         \<lparr>gmd_moveKind = ''moveResource'', gmd_sourceUris = [''file:///w/p/A.java'']\<rparr>,
       ShowQuickPickPackages
         [\<lparr>pi_label = ''q'', pi_description = Some ''/w/q'', pi_packageNode = package_no_uri\<rparr>]
         ''Choose the target package for A.java.'',
       SendMoveRequest
         \<lparr>mv_moveKind = ''moveResource'', mv_sourceUris = [''file:///w/p/A.java''],
          mv_params = None, mv_destination = PackageDestination package_no_uri,
          mv_updateReferences = Some True\<rparr>],
      Normal ())"
  by (simp add: moveFile_def moveFile_selected_def moveFile_request_def applyRefactorEdit_def
      packageNodeItem_def parse_if_truthy_def available_destinations_def picked_item_def
      truthy_def getFileNameFromUri_def is_separator_def is_line_terminator_def
      moveFile_placeHolder_def destinationsRequest_def resourceMove_def env_no_uri_def stub_def
      package_no_uri_def file_uri_def io_simps)

text \<open>
  C3, amended. In a move-file run that reaches the collision check with a chosen package
  that has a URI with a non-empty file system path (the common-parent check has passed,
  the server has answered destinations, the user has picked one), a warning follows the
  picker exactly when some selected file collides with a file of its name in that
  directory, and its text lists the names of exactly the colliding files, separated by
  commas, in selection order; when every selected file collides no move request is sent;
  otherwise the next call is the move request, whose sources are exactly the
  non-colliding files, in selection order.
\<close>

theorem C3_collisions:
  assumes "hasCommonParent env (Some fileUris)"
    and "getMoveDestinations env
           \<lparr>gmd_moveKind = ''moveResource'', gmd_sourceUris = map toString fileUris\<rparr> = Normal md"
    and "available_destinations md = Some ds"
    and "map_io (packageNodeItem env) ds = ([], Normal items)"
    and "pickPackage env items (moveFile_placeHolder fileUris) = Normal (Some i)"
    and "i < length items"
    and "pn_uri (pi_packageNode (items ! i)) = Some s" and "s \<noteq> []"
    and "Uri_parse env s = Normal pu" and "fsPath pu \<noteq> []"
  shows "\<exists>tail.
           fst (moveFile env fileUris) =
             [SendGetMoveDestinations
                \<lparr>gmd_moveKind = ''moveResource'', gmd_sourceUris = map toString fileUris\<rparr>,
              ShowQuickPickPackages items (moveFile_placeHolder fileUris)]
             @ (if list_ex (collides env pu) fileUris
                then [ShowWarningMessage
                        (''The files '' @ [CHR 0x27]
                         @ tl (concat (map ((#) CHR '','')
                                 (map getFileNameFromUri (filter (collides env pu) fileUris))))
                         @ [CHR 0x27] @ '' already exist in the package '' @ [CHR 0x27]
                         @ pn_displayName (pi_packageNode (items ! i)) @ [CHR 0x27]
                         @ ''. The move operation will ignore them.'')]
                else [])
             @ (if list_all (collides env pu) fileUris then []
                else SendMoveRequest
                       \<lparr>mv_moveKind = ''moveResource'',
                        mv_sourceUris =
                          map toString (filter (\<lambda>u. \<not> collides env pu u) fileUris),
                        mv_params = None,
                        mv_destination = PackageDestination (pi_packageNode (items ! i)),
                        mv_updateReferences = Some True\<rparr>
                     # tail)"
proof -
  let ?dups = "map getFileNameFromUri (filter (collides env pu) fileUris)"
  let ?moves = "filter (\<lambda>u. \<not> collides env pu u) fileUris"
  let ?warn = "ShowWarningMessage
      (''The files '' @ [CHR 0x27] @ tl (concat (map ((#) CHR '','') ?dups))
       @ [CHR 0x27] @ '' already exist in the package '' @ [CHR 0x27]
       @ pn_displayName (pi_packageNode (items ! i)) @ [CHR 0x27]
       @ ''. The move operation will ignore them.'')"
  have dups: "?dups \<noteq> [] \<longleftrightarrow> list_ex (collides env pu) fileUris"
    by (simp add: list_ex_iff filter_empty_conv)
  have moves: "?moves = [] \<longleftrightarrow> list_all (collides env pu) fileUris"
    by (simp add: list_all_iff filter_empty_conv)
  have sel: "fst (moveFile_selected env fileUris (items ! i)) =
               (if ?dups \<noteq> [] then [?warn] else [])
               @ (if ?moves = [] then [] else fst (moveFile_request env ?moves (items ! i)))"
    using assms(7-10)
    by (simp add: moveFile_selected_def parse_if_truthy_def truthy_def template_def
        collision_loop_filter duplicate_warning_def join_comma io_simps)
  have start: "fst (moveFile env fileUris) =
          [SendGetMoveDestinations
             \<lparr>gmd_moveKind = ''moveResource'', gmd_sourceUris = map toString fileUris\<rparr>,
           ShowQuickPickPackages items (moveFile_placeHolder fileUris)]
          @ fst (moveFile_selected env fileUris (items ! i))"
    using assms(1-6) by (simp add: moveFile_def destinationsRequest_def picked_item_def io_simps)
  from moveFile_request_first [of env ?moves "items ! i"]
  obtain tail where req: "fst (moveFile_request env ?moves (items ! i)) =
      SendMoveRequest
        \<lparr>mv_moveKind = ''moveResource'', mv_sourceUris = map toString ?moves, mv_params = None,
         mv_destination = PackageDestination (pi_packageNode (items ! i)),
         mv_updateReferences = Some True\<rparr> # tail"
    by blast
  show ?thesis
    unfolding start sel req dups moves by (intro exI [of _ tail]) simp
qed

text \<open>
  Two runs in a Node-like stub whose destination holds \<^verbatim>\<open>B.java\<close>: moving \<^verbatim>\<open>B.java\<close>
  gives the warning and no request, moving \<^verbatim>\<open>A.java\<close> gives the request for it.
\<close>

theorem C3_collisions_witness:
  "fst (moveFile env_existing_B [file_uri ''/w/p/B.java'']) =
     [SendGetMoveDestinations
        \<lparr>gmd_moveKind = ''moveResource'', gmd_sourceUris = [''file:///w/p/B.java'']\<rparr>,
      ShowQuickPickPackages [picker_item_q] ''Choose the target package for B.java.'',
      ShowWarningMessage
        (''The files '' @ [CHR 0x27] @ ''B.java'' @ [CHR 0x27] @ '' already exist in the package ''
         @ [CHR 0x27] @ ''q'' @ [CHR 0x27] @ ''. The move operation will ignore them.'')] \<and>
   (\<exists>tail.
      fst (moveFile env_existing_B [file_uri ''/w/p/A.java'']) =
        [SendGetMoveDestinations
           \<lparr>gmd_moveKind = ''moveResource'', gmd_sourceUris = [''file:///w/p/A.java'']\<rparr>,
         ShowQuickPickPackages [picker_item_q] ''Choose the target package for A.java.'',
         SendMoveRequest
           \<lparr>mv_moveKind = ''moveResource'', mv_sourceUris = [''file:///w/p/A.java''],
            mv_params = None, mv_destination = PackageDestination package_q,
            mv_updateReferences = Some True\<rparr>] @ tail)"
proof -
  let ?A = "file_uri ''/w/p/A.java''" and ?B = "file_uri ''/w/p/B.java''"
  let ?md = "Some \<lparr>mdr_errorMessage = None, mdr_destinations = Some [package_q]\<rparr>"
  let ?pu = "\<lparr>fsPath = ''/w/q'', toString = ''file:///w/q''\<rparr>"
  have h1: "hasCommonParent env_existing_B (Some [f])" for f
    by simp
  have h2: "getMoveDestinations env_existing_B
              \<lparr>gmd_moveKind = ''moveResource'', gmd_sourceUris = map toString [f]\<rparr> = Normal ?md"
    for f
    by (simp add: env_existing_B_def one_destination_def)
  have h3: "available_destinations ?md = Some [package_q]"
    by (simp add: available_destinations_def)
  have h4: "map_io (packageNodeItem env_existing_B) [package_q] = ([], Normal [picker_item_q])"
    by (simp add: packageNodeItem_def parse_if_truthy_def truthy_def template_def package_q_def
        picker_item_q_def env_existing_B_def stub_def io_simps)
  have h5: "pickPackage env_existing_B [picker_item_q] (moveFile_placeHolder [f]) = Normal (Some 0)"
    for f
    by (simp add: env_existing_B_def stub_def)
  have h6: "0 < length [picker_item_q]"
    by simp
  have h7: "pn_uri (pi_packageNode ([picker_item_q] ! 0)) = Some ''file:///w/q''"
    by (simp add: picker_item_q_def package_q_def)
  have h8: "''file:///w/q'' \<noteq> []"
    by simp
  have h9: "Uri_parse env_existing_B ''file:///w/q'' = Normal ?pu"
    by (simp add: env_existing_B_def stub_def)
  have h10: "fsPath ?pu \<noteq> []"
    by simp
  have cA: "\<not> collides env_existing_B ?pu ?A"
    by (simp add: collides_def env_existing_B_def stub_def file_uri_def getFileNameFromUri_def
        is_separator_def is_line_terminator_def)
  have cB: "collides env_existing_B ?pu ?B"
    by (simp add: collides_def env_existing_B_def stub_def file_uri_def getFileNameFromUri_def
        is_separator_def is_line_terminator_def)
  have nB: "getFileNameFromUri ?B = ''B.java''"
    by (simp add: file_uri_def getFileNameFromUri_def is_separator_def is_line_terminator_def)
  have phA: "moveFile_placeHolder [?A] = ''Choose the target package for A.java.''"
    by (simp add: moveFile_placeHolder_def file_uri_def getFileNameFromUri_def is_separator_def
        is_line_terminator_def)
  have phB: "moveFile_placeHolder [?B] = ''Choose the target package for B.java.''"
    by (simp add: moveFile_placeHolder_def file_uri_def getFileNameFromUri_def is_separator_def
        is_line_terminator_def)
  have sA: "toString ?A = ''file:///w/p/A.java''" and sB: "toString ?B = ''file:///w/p/B.java''"
    by (simp_all add: file_uri_def)
  have node: "pi_packageNode picker_item_q = package_q"
    by (simp add: picker_item_q_def)
  have name: "pn_displayName package_q = ''q''"
    by (simp add: package_q_def)
  from C3_collisions [OF h1 h2 h3 h4 h5 h6 h7 h8 h9 h10, of ?B] cB
  have partB: "fst (moveFile env_existing_B [?B]) =
     [SendGetMoveDestinations
        \<lparr>gmd_moveKind = ''moveResource'', gmd_sourceUris = [''file:///w/p/B.java'']\<rparr>,
      ShowQuickPickPackages [picker_item_q] ''Choose the target package for B.java.'',
      ShowWarningMessage
        (''The files '' @ [CHR 0x27] @ ''B.java'' @ [CHR 0x27] @ '' already exist in the package ''
         @ [CHR 0x27] @ ''q'' @ [CHR 0x27] @ ''. The move operation will ignore them.'')]"
    by (simp add: nB phB sB node name)
  from C3_collisions [OF h1 h2 h3 h4 h5 h6 h7 h8 h9 h10, of ?A] cA
  have partA: "\<exists>tail.
      fst (moveFile env_existing_B [?A]) =
        [SendGetMoveDestinations
           \<lparr>gmd_moveKind = ''moveResource'', gmd_sourceUris = [''file:///w/p/A.java'']\<rparr>,
         ShowQuickPickPackages [picker_item_q] ''Choose the target package for A.java.'',
         SendMoveRequest
           \<lparr>mv_moveKind = ''moveResource'', mv_sourceUris = [''file:///w/p/A.java''],
            mv_params = None, mv_destination = PackageDestination package_q,
            mv_updateReferences = Some True\<rparr>] @ tail"
    by (simp add: phA sA node)
  from partB partA show ?thesis
    by simp
qed

section \<open>The save step of the move-file flow\<close>

lemma set_set_add [simp]: "set (set_add u T) = insert u (set T)"
  by (auto simp: set_add_def)

lemma set_set_delete [simp]: "set (set_delete u T) = set T - {u}"
  by (auto simp: set_delete_def)

lemma distinct_set_add [simp]: "distinct T \<Longrightarrow> distinct (set_add u T)"
  by (simp add: set_add_def)

lemma distinct_set_delete [simp]: "distinct T \<Longrightarrow> distinct (set_delete u T)"
  by (simp add: set_delete_def distinct_removeAll)

lemma distinct_touch: "distinct T \<Longrightarrow> distinct (touch T c)"
  by (cases c) simp_all

lemma touch_keeps: "u \<in> set T \<Longrightarrow> \<not> may_remove u c \<Longrightarrow> u \<in> set (touch T c)"
  by (cases c) auto

lemma touch_absent: "u \<notin> set T \<Longrightarrow> \<not> may_add u c \<Longrightarrow> u \<notin> set (touch T c)"
  by (cases c) auto

lemma touch_subset: "set (touch T c) \<subseteq> set T \<union> {u. may_add u c}"
  by (cases c) auto

lemma foldl_touch_keeps:
  "u \<in> set T \<Longrightarrow> \<not> list_ex (may_remove u) cs \<Longrightarrow> u \<in> set (foldl touch T cs)"
  by (induction cs arbitrary: T) (simp_all add: touch_keeps)

lemma foldl_touch_absent:
  "u \<notin> set T \<Longrightarrow> \<not> list_ex (may_add u) cs \<Longrightarrow> u \<notin> set (foldl touch T cs)"
  by (induction cs arbitrary: T) (simp_all add: touch_absent)

lemma foldl_touch_subset:
  "set (foldl touch T cs) \<subseteq> set T \<union> {u. list_ex (may_add u) cs}"
proof (induction cs arbitrary: T)
  case Nil
  then show ?case by simp
next
  case (Cons c cs)
  have "set (foldl touch (touch T c) cs) \<subseteq> set (touch T c) \<union> {u. list_ex (may_add u) cs}"
    by (rule Cons.IH)
  with touch_subset [of T c] show ?case by auto
qed

lemma distinct_foldl_touch: "distinct T \<Longrightarrow> distinct (foldl touch T cs)"
  by (induction cs arbitrary: T) (simp_all add: distinct_touch)

lemma set_foldl_set_add: "set (foldl (\<lambda>T u. set_add u T) T0 us) = set T0 \<union> set us"
  by (induction us arbitrary: T0) auto

lemma distinct_foldl_set_add: "distinct T0 \<Longrightarrow> distinct (foldl (\<lambda>T u. set_add u T) T0 us)"
  by (induction us arbitrary: T0) auto

lemma set_changeKeys: "set (changeKeys e) = set (change_keys_of e)"
  by (simp add: changeKeys_def change_keys_of_def set_foldl_set_add split: option.splits)

lemma distinct_changeKeys: "distinct (changeKeys e)"
  by (simp add: changeKeys_def distinct_foldl_set_add split: option.splits)

lemma touchedFiles_fold: "touchedFiles e = foldl touch (changeKeys e) (document_changes_of e)"
  by (simp add: touchedFiles_def document_changes_of_def split: option.splits)

lemma distinct_touchedFiles: "distinct (touchedFiles e)"
  by (simp add: touchedFiles_fold distinct_changeKeys distinct_foldl_touch)

lemma touchedFiles_subset:
  "u \<in> set (touchedFiles e) \<Longrightarrow>
   u \<in> set (change_keys_of e) \<or> list_ex (may_add u) (document_changes_of e)"
  using foldl_touch_subset [of "changeKeys e" "document_changes_of e"]
  by (auto simp: touchedFiles_fold set_changeKeys)

lemma save_loop_all:
  assumes "\<forall>u\<in>set T. Uri_parse env u = Normal (P u) \<and>
             openTextDocument env (P u) = Normal (Some (D u)) \<and> doc_save env (D u) = Normal (ok u)"
  shows "save_loop env T = (concat (map (\<lambda>u. [OpenTextDocument (P u), Save (D u)]) T), Normal ())"
  using assms by (induction T) (simp_all add: io_simps)

lemma rename_touched:
  assumes "document_changes_of e = pre @ RenameFile old new # post"
    and "old \<in> set (touched_after e pre)"
  shows "(\<not> list_ex (may_remove new) post \<longrightarrow> new \<in> set (touchedFiles e)) \<and>
         (old \<noteq> new \<and> \<not> list_ex (may_add old) post \<longrightarrow> old \<notin> set (touchedFiles e))"
proof -
  let ?T = "touch (touched_after e pre) (RenameFile old new)"
  have tf: "touchedFiles e = foldl touch ?T post"
    by (simp add: touchedFiles_fold assms(1) touched_after_def)
  from assms(2) have "new \<in> set ?T" and "old \<noteq> new \<longrightarrow> old \<notin> set ?T"
    by auto
  then show ?thesis
    using foldl_touch_keeps [of new ?T post] foldl_touch_absent [of old ?T post]
    by (auto simp: tf)
qed

lemma rename_untouched:
  assumes "document_changes_of e = pre @ RenameFile old new # post"
    and "old \<notin> set (touched_after e pre)"
  shows "touchedFiles e = foldl touch (touched_after e pre) post"
  using assms by (simp add: touchedFiles_fold touched_after_def)

lemma delete_touched:
  assumes "document_changes_of e = pre @ DeleteFile u # post"
    and "\<not> list_ex (may_add u) post"
  shows "u \<notin> set (touchedFiles e)"
proof -
  let ?T = "touch (touched_after e pre) (DeleteFile u)"
  have tf: "touchedFiles e = foldl touch ?T post"
    by (simp add: touchedFiles_fold assms(1) touched_after_def)
  have "u \<notin> set ?T"
    by auto
  with assms(2) show ?thesis
    using foldl_touch_absent [of u ?T post] by (simp add: tf)
qed

lemma change_key_touched:
  assumes "k \<in> set (change_keys_of e)"
    and "\<not> list_ex (may_remove k) (document_changes_of e)"
  shows "k \<in> set (touchedFiles e)"
  using assms foldl_touch_keeps [of k "changeKeys e" "document_changes_of e"]
  by (simp add: touchedFiles_fold set_changeKeys)

lemma text_edit_touched:
  assumes "document_changes_of e = pre @ TextDocumentEdit t es # post"
    and "\<not> list_ex (may_remove t) post"
  shows "t \<in> set (touchedFiles e)"
proof -
  let ?T = "touch (touched_after e pre) (TextDocumentEdit t es)"
  have tf: "touchedFiles e = foldl touch ?T post"
    by (simp add: touchedFiles_fold assms(1) touched_after_def)
  have "t \<in> set ?T"
    by simp
  with assms(2) show ?thesis
    using foldl_touch_keeps [of t ?T post] by (simp add: tf)
qed

lemma rename_untouched_new:
  assumes "document_changes_of e = pre @ RenameFile old new # post"
    and "old \<notin> set (touched_after e pre)"
    and "new \<notin> set (touched_after e pre)" and "\<not> list_ex (may_add new) post"
  shows "new \<notin> set (touchedFiles e)"
  using assms foldl_touch_absent [of new "touched_after e pre" post]
  by (simp add: rename_untouched [OF assms(1,2)])

text \<open>
  The claim C2 as written: the save step saves exactly the documents the edit touches,
  by their final identity; for every rename file-change it saves the new URI and never
  the old one, it saves no deleted URI and nothing outside the touched set. It fails for
  an edit whose only change is a rename: the old URI is not in \<^verbatim>\<open>touchedFiles\<close> when the
  rename is processed, the guard of line 227 skips it, and nothing is saved, the new URI
  included.
\<close>

theorem C2_rename_only_counterexample:
  "touchedFiles rename_only = [] \<and> saveEdit stub (Some rename_only) = ([], Normal ())"
  by (simp add: saveEdit_def touchedFiles_def changeKeys_def rename_only_def return_io_def)

text \<open>
  C2, amended. The save step opens and saves, once each and in insertion order, exactly
  the URIs of \<^verbatim>\<open>touchedFiles\<close> (when each of them parses and opens to a document and no
  call throws). Every such URI is a key of \<^verbatim>\<open>changes\<close>, the URI of a text document edit
  or the new URI of a rename. Conversely, every key of \<^verbatim>\<open>changes\<close> is saved unless a
  document change renames or deletes it, and the URI of every text document edit is saved
  unless a later change renames or deletes it. A rename whose old URI is in the set when
  the rename is processed puts the new URI in its place: the new URI is saved unless a
  later change renames or deletes it, and the old URI is not saved unless a later change
  touches it again. A rename whose old URI is not in the set at that point changes
  nothing: the new URI is not saved on its account. A deleted URI is not saved unless a
  later change touches it again.
\<close>

theorem C2_save_targets:
  "distinct (touchedFiles e) \<and>
   ((\<forall>u\<in>set (touchedFiles e).
        Uri_parse env u = Normal (P u) \<and> openTextDocument env (P u) = Normal (Some (D u)) \<and>
        doc_save env (D u) = Normal (ok u))
      \<longrightarrow> saveEdit env (Some e) =
            (concat (map (\<lambda>u. [OpenTextDocument (P u), Save (D u)]) (touchedFiles e)), Normal ())) \<and>
   (\<forall>u\<in>set (touchedFiles e).
        u \<in> set (change_keys_of e) \<or> list_ex (may_add u) (document_changes_of e)) \<and>
   (k \<in> set (change_keys_of e) \<and> \<not> list_ex (may_remove k) (document_changes_of e)
      \<longrightarrow> k \<in> set (touchedFiles e)) \<and>
   (document_changes_of e = pre'' @ TextDocumentEdit t es # post'' \<and>
    \<not> list_ex (may_remove t) post''
      \<longrightarrow> t \<in> set (touchedFiles e)) \<and>
   (document_changes_of e = pre @ RenameFile old new # post \<and> old \<in> set (touched_after e pre)
      \<longrightarrow> (\<not> list_ex (may_remove new) post \<longrightarrow> new \<in> set (touchedFiles e)) \<and>
           (old \<noteq> new \<and> \<not> list_ex (may_add old) post \<longrightarrow> old \<notin> set (touchedFiles e))) \<and>
   (document_changes_of e = pre @ RenameFile old new # post \<and> old \<notin> set (touched_after e pre)
      \<longrightarrow> touchedFiles e = foldl touch (touched_after e pre) post \<and>
           (new \<notin> set (touched_after e pre) \<and> \<not> list_ex (may_add new) post
              \<longrightarrow> new \<notin> set (touchedFiles e))) \<and>
   (document_changes_of e = pre' @ DeleteFile d # post' \<and> \<not> list_ex (may_add d) post'
      \<longrightarrow> d \<notin> set (touchedFiles e))"
proof (intro conjI)
  show "distinct (touchedFiles e)"
    by (rule distinct_touchedFiles)
  show "(\<forall>u\<in>set (touchedFiles e).
        Uri_parse env u = Normal (P u) \<and> openTextDocument env (P u) = Normal (Some (D u)) \<and>
        doc_save env (D u) = Normal (ok u))
      \<longrightarrow> saveEdit env (Some e) =
            (concat (map (\<lambda>u. [OpenTextDocument (P u), Save (D u)]) (touchedFiles e)), Normal ())"
    using save_loop_all [of "touchedFiles e" env P D ok] by (simp add: saveEdit_def)
  show "\<forall>u\<in>set (touchedFiles e).
        u \<in> set (change_keys_of e) \<or> list_ex (may_add u) (document_changes_of e)"
    using touchedFiles_subset by blast
  show "k \<in> set (change_keys_of e) \<and> \<not> list_ex (may_remove k) (document_changes_of e)
      \<longrightarrow> k \<in> set (touchedFiles e)"
    using change_key_touched [of k e] by blast
  show "document_changes_of e = pre'' @ TextDocumentEdit t es # post'' \<and>
    \<not> list_ex (may_remove t) post''
      \<longrightarrow> t \<in> set (touchedFiles e)"
    using text_edit_touched [of e pre'' t es post''] by blast
  show "document_changes_of e = pre @ RenameFile old new # post \<and> old \<in> set (touched_after e pre)
      \<longrightarrow> (\<not> list_ex (may_remove new) post \<longrightarrow> new \<in> set (touchedFiles e)) \<and>
           (old \<noteq> new \<and> \<not> list_ex (may_add old) post \<longrightarrow> old \<notin> set (touchedFiles e))"
    using rename_touched [of e pre old new post] by blast
  show "document_changes_of e = pre @ RenameFile old new # post \<and> old \<notin> set (touched_after e pre)
      \<longrightarrow> touchedFiles e = foldl touch (touched_after e pre) post \<and>
           (new \<notin> set (touched_after e pre) \<and> \<not> list_ex (may_add new) post
              \<longrightarrow> new \<notin> set (touchedFiles e))"
    using rename_untouched [of e pre old new post] rename_untouched_new [of e pre old new post]
    by blast
  show "document_changes_of e = pre' @ DeleteFile d # post' \<and> \<not> list_ex (may_add d) post'
      \<longrightarrow> d \<notin> set (touchedFiles e)"
    using delete_touched [of e pre' d post'] by blast
qed

theorem C2_save_targets_witness:
  "saveEdit stub (Some mixed_edit) =
     ([OpenTextDocument (stub_uri ''file:///w/p/K.java''), Save (stub_document ''file:///w/p/K.java''),
       OpenTextDocument (stub_uri ''file:///w/q/A.java''), Save (stub_document ''file:///w/q/A.java''),
       OpenTextDocument (stub_uri ''file:///w/p/F.java''), Save (stub_document ''file:///w/p/F.java'')],
      Normal ()) \<and>
   ''file:///w/p/K.java'' \<in> set (touchedFiles mixed_edit) \<and>
   ''file:///w/p/F.java'' \<in> set (touchedFiles mixed_edit) \<and>
   ''file:///w/q/A.java'' \<in> set (touchedFiles mixed_edit) \<and>
   ''file:///w/p/A.java'' \<notin> set (touchedFiles mixed_edit) \<and>
   ''file:///w/q/C.java'' \<notin> set (touchedFiles mixed_edit) \<and>
   ''file:///w/p/E.java'' \<notin> set (touchedFiles mixed_edit)"
proof -
  let ?K = "''file:///w/p/K.java''"
  let ?A = "''file:///w/p/A.java''" and ?B = "''file:///w/q/A.java''"
  let ?C = "''file:///w/p/C.java''" and ?D = "''file:///w/q/C.java''"
  let ?E = "''file:///w/p/E.java''" and ?F = "''file:///w/p/F.java''"
  let ?c1 = "TextDocumentEdit ?A []" and ?c2 = "RenameFile ?A ?B" and ?c3 = "RenameFile ?C ?D"
  let ?c4 = "TextDocumentEdit ?E []" and ?c5 = "DeleteFile ?E" and ?c6 = "TextDocumentEdit ?F []"
  have dcs: "document_changes_of mixed_edit = [?c1, ?c2, ?c3, ?c4, ?c5, ?c6]"
    by (simp add: document_changes_of_def mixed_edit_def)
  have keys: "change_keys_of mixed_edit = [?K]"
    by (simp add: change_keys_of_def mixed_edit_def)
  have after1: "touched_after mixed_edit [?c1] = [?K, ?A]"
    by (simp add: touched_after_def changeKeys_def mixed_edit_def set_add_def)
  have after2: "touched_after mixed_edit [?c1, ?c2] = [?K, ?B]"
    by (simp add: touched_after_def changeKeys_def mixed_edit_def set_add_def set_delete_def)
  have open_ok: "\<forall>u\<in>set (touchedFiles mixed_edit).
      Uri_parse stub u = Normal (stub_uri u) \<and>
      openTextDocument stub (stub_uri u) = Normal (Some (stub_document u)) \<and>
      doc_save stub (stub_document u) = Normal True"
    by (simp add: stub_def stub_uri_def stub_document_def)
  note save_part = C2_save_targets [where e = mixed_edit and env = stub and P = stub_uri
      and D = stub_document and ok = "\<lambda>u. True"]
  note key_part = C2_save_targets [where e = mixed_edit and k = ?K]
  note text_part = C2_save_targets [where e = mixed_edit and pre'' = "[?c1, ?c2, ?c3, ?c4, ?c5]"
      and t = ?F and es = "[]" and post'' = "[]"]
  note rename_part = C2_save_targets [where e = mixed_edit and pre = "[?c1]"
      and old = ?A and new = ?B and post = "[?c3, ?c4, ?c5, ?c6]"]
  note untouched_part = C2_save_targets [where e = mixed_edit and pre = "[?c1, ?c2]"
      and old = ?C and new = ?D and post = "[?c4, ?c5, ?c6]"]
  note delete_part = C2_save_targets [where e = mixed_edit and pre' = "[?c1, ?c2, ?c3, ?c4]"
      and d = ?E and post' = "[?c6]"]
  from save_part open_ok
  have saved: "saveEdit stub (Some mixed_edit) =
      (concat (map (\<lambda>u. [OpenTextDocument (stub_uri u), Save (stub_document u)])
                 (touchedFiles mixed_edit)), Normal ())"
    by blast
  have "?K \<in> set (change_keys_of mixed_edit) \<and>
        \<not> list_ex (may_remove ?K) (document_changes_of mixed_edit)"
    by (simp add: keys dcs)
  with key_part have key: "?K \<in> set (touchedFiles mixed_edit)"
    by blast
  have "document_changes_of mixed_edit = [?c1, ?c2, ?c3, ?c4, ?c5] @ ?c6 # [] \<and>
        \<not> list_ex (may_remove ?F) []"
    by (simp add: dcs)
  with text_part have text_edited: "?F \<in> set (touchedFiles mixed_edit)"
    by blast
  have "document_changes_of mixed_edit = [?c1] @ ?c2 # [?c3, ?c4, ?c5, ?c6] \<and>
        ?A \<in> set (touched_after mixed_edit [?c1])"
    and "\<not> list_ex (may_remove ?B) [?c3, ?c4, ?c5, ?c6]"
    and "?A \<noteq> ?B \<and> \<not> list_ex (may_add ?A) [?c3, ?c4, ?c5, ?c6]"
    by (simp_all add: dcs after1)
  with rename_part
  have renamed: "?B \<in> set (touchedFiles mixed_edit) \<and> ?A \<notin> set (touchedFiles mixed_edit)"
    by blast
  have "document_changes_of mixed_edit = [?c1, ?c2] @ ?c3 # [?c4, ?c5, ?c6] \<and>
        ?C \<notin> set (touched_after mixed_edit [?c1, ?c2])"
    and "?D \<notin> set (touched_after mixed_edit [?c1, ?c2]) \<and> \<not> list_ex (may_add ?D) [?c4, ?c5, ?c6]"
    by (simp_all add: dcs after2)
  with untouched_part have untouched: "?D \<notin> set (touchedFiles mixed_edit)"
    by blast
  have "document_changes_of mixed_edit = [?c1, ?c2, ?c3, ?c4] @ ?c5 # [?c6] \<and>
        \<not> list_ex (may_add ?E) [?c6]"
    by (simp add: dcs)
  with delete_part have deleted: "?E \<notin> set (touchedFiles mixed_edit)"
    by blast
  have order: "touchedFiles mixed_edit = [?K, ?B, ?F]"
    by (simp add: touchedFiles_def changeKeys_def mixed_edit_def set_add_def set_delete_def)
  from saved key text_edited renamed untouched deleted show ?thesis
    by (simp add: order)
qed

section \<open>The static-member move: candidates\<close>

lemma compareByName_le: "compareByName x y \<le> 0 \<longleftrightarrow> sym_name x \<le> sym_name y"
  by (auto simp: compareByName_def)

lemma set_insert_by: "set (insert_by cmp x ys) = insert x (set ys)"
  by (induction ys) auto

lemma sorted_insert_by:
  "sorted (map sym_name ys) \<Longrightarrow> sorted (map sym_name (insert_by compareByName x ys))"
  by (induction ys) (auto simp: compareByName_le set_insert_by)

lemma sorted_sort_by: "sorted (map sym_name (sort_by compareByName xs))"
  unfolding sort_by_def by (induction xs) (simp_all add: sorted_insert_by)

lemma set_sort_by: "set (sort_by cmp xs) = set xs"
  unfolding sort_by_def by (induction xs) (simp_all add: set_insert_by)

lemma exclude_enum_member: "exclude enum_member = [''p.Outer'']"
  by (simp add: exclude_def enum_member_def truthy_def template_def)

lemma exclude_type_member: "exclude type_member = [''p.Outer'', ''p.Outer.Color'']"
  by (simp add: exclude_def type_member_def truthy_def template_def)

lemma typeName_symbol: "container \<noteq> [] \<Longrightarrow> typeName (symbol container name) = container @ ''.'' @ name"
  by (simp add: typeName_def symbol_def truthy_def template_def)

lemma sym_name_symbol: "sym_name (symbol container name) = name"
  by (simp add: symbol_def)

lemma filter_enum_member:
  "filter (\<lambda>type. typeName type \<notin> set (exclude enum_member)) found_symbols =
     [symbol ''p'' ''Target'', symbol ''p.Outer'' ''Color'']"
  by (simp add: found_symbols_def exclude_enum_member typeName_symbol)

lemma filter_type_member:
  "filter (\<lambda>type. typeName type \<notin> set (exclude type_member)) found_symbols =
     [symbol ''p'' ''Target'']"
  by (simp add: found_symbols_def exclude_type_member typeName_symbol)

text \<open>
  C4 (fails on the code). The claim: the candidate list leaves out the member's enclosing
  type, and also the member's own qualified name when the member's declaration kind is
  Type (55), Enum (71) or AnnotationType (81); every other symbol stays. The comment of
  line 297 says the same, but the test for 71 reads the property \<^verbatim>\<open>memeberType\<close>, which
  the server does not send: for an enum member \<open>Color\<close> of \<open>p.Outer\<close> the enclosing type
  is left out and the member itself stays in the list.
\<close>

theorem C4_enum_member_kept:
  "candidates enum_member (Some found_symbols) =
     [symbolItem (symbol ''p.Outer'' ''Color''), symbolItem (symbol ''p'' ''Target'')]"
proof -
  have "found_symbols \<noteq> []"
    by (simp add: found_symbols_def)
  then show ?thesis
    by (simp add: candidates_def filter_enum_member sort_by_def compareByName_def
        sym_name_symbol less_char_def)
qed

text \<open>The same search result for a member of kind Type (55): the member is left out.\<close>

lemma type_member_excluded:
  "candidates type_member (Some found_symbols) = [symbolItem (symbol ''p'' ''Target'')]"
proof -
  have "found_symbols \<noteq> []"
    by (simp add: found_symbols_def)
  then show ?thesis
    by (simp add: candidates_def filter_type_member sort_by_def)
qed

text \<open>
  C9. When the search-symbols request answers a non-empty list, the items handed to the
  picker are the items of a list of symbols that is sorted by name (non-decreasing, in
  the order of \<^verbatim>\<open><\<close> on strings); the label of each item is the name of its symbol.
\<close>

theorem C9_candidates_sorted:
  assumes "searchSymbols env (symbolQuery ci) = Normal (Some ts)" and "ts \<noteq> []"
  shows "\<exists>ss rest.
           fst (moveStaticMember env params (Some ci)) =
             SendSearchSymbols (symbolQuery ci)
             # ShowQuickPickSymbols (Normal (map symbolItem ss)) (moveStaticMember_placeHolder ci)
             # rest
           \<and> sorted (map sym_name ss)"
proof -
  let ?ss = "sort_by compareByName (filter (\<lambda>type. typeName type \<notin> set (exclude ci)) ts)"
  from assms have "candidates ci (Some ts) = map symbolItem ?ss"
    by (simp add: candidates_def)
  with assms(1) have "\<exists>rest. fst (moveStaticMember env params (Some ci)) =
      SendSearchSymbols (symbolQuery ci)
      # ShowQuickPickSymbols (Normal (map symbolItem ?ss)) (moveStaticMember_placeHolder ci) # rest"
    by (simp add: moveStaticMember_def Let_def io_simps split: completion.splits)
  with sorted_sort_by [of "filter (\<lambda>type. typeName type \<notin> set (exclude ci)) ts"]
  show ?thesis
    by blast
qed

theorem C9_candidates_sorted_witness:
  "\<exists>ss rest.
     fst (moveStaticMember (stub\<lparr>searchSymbols := (\<lambda>q. Normal (Some found_symbols))\<rparr>)
            \<lparr>cap_textDocument_uri = ''file:///w/p/Outer.java''\<rparr> (Some method_member)) =
       SendSearchSymbols (symbolQuery method_member)
       # ShowQuickPickSymbols (Normal (map symbolItem ss))
           (moveStaticMember_placeHolder method_member)
       # rest
     \<and> sorted (map sym_name ss)"
proof -
  let ?env = "stub\<lparr>searchSymbols := (\<lambda>q. Normal (Some found_symbols))\<rparr>"
  have h1: "searchSymbols ?env (symbolQuery method_member) = Normal (Some found_symbols)"
    by simp
  have h2: "found_symbols \<noteq> []"
    by (simp add: found_symbols_def)
  from C9_candidates_sorted [OF h1 h2] show ?thesis .
qed

text \<open>
  C10. When the search-symbols request answers no list or an empty list, the picker is
  given exactly one item, labelled \<^verbatim>\<open>No result found\<close> and without symbol, and the run
  consists of the request and the picker only: no move request follows, whatever the
  picker returns.
\<close>

theorem C10_no_result:
  assumes "searchSymbols env (symbolQuery ci) = Normal None
           \<or> searchSymbols env (symbolQuery ci) = Normal (Some [])"
  shows "fst (moveStaticMember env params (Some ci)) =
           [SendSearchSymbols (symbolQuery ci),
            ShowQuickPickSymbols
              (Normal [\<lparr>si_label = ''No result found'', si_description = Some [],
                        si_symbolNode = None, si_alwaysShow = Some True\<rparr>])
              (moveStaticMember_placeHolder ci)]"
proof -
  from assms obtain types
    where req: "searchSymbols env (symbolQuery ci) = Normal types"
      and none: "types = None \<or> types = Some []"
    by blast
  from none have "candidates ci types = [noResult]"
    by (auto simp: candidates_def)
  with req show ?thesis
    by (simp add: moveStaticMember_def Let_def io_simps picked_item_def noResult_def
        split: completion.splits option.splits)
qed

theorem C10_no_result_witness:
  "fst (moveStaticMember stub \<lparr>cap_textDocument_uri = ''file:///w/p/Outer.java''\<rparr>
          (Some method_member)) =
     [SendSearchSymbols \<lparr>ss_query = ''*'', ss_projectName = Some ''demo'', ss_sourceOnly = True\<rparr>,
      ShowQuickPickSymbols
        (Normal [\<lparr>si_label = ''No result found'', si_description = Some [],
                  si_symbolNode = None, si_alwaysShow = Some True\<rparr>])
        ''Select the new class for the static member run.'']"
proof -
  have h: "searchSymbols stub (symbolQuery method_member) = Normal None
           \<or> searchSymbols stub (symbolQuery method_member) = Normal (Some [])"
    by (simp add: stub_def)
  from C10_no_result [OF h, of "\<lparr>cap_textDocument_uri = ''file:///w/p/Outer.java''\<rparr>"]
  show ?thesis
    by (simp add: symbolQuery_def moveStaticMember_placeHolder_def method_member_def truthy_def
        template_def)
qed

end
